theory Spec2Isabelle
  imports Main "HOL-Library.Word" "HOL-Library.Monad_Syntax"
begin

section \<open>The include audit of ClangThread\<close>

subsection \<open>Dependency graph\<close>

text \<open>
  File ids are \<open>uint32_t\<close>. A \<open>Location\<close> carries a file id, a line and a column.
\<close>

type_synonym fileid = "32 word"

record location =
  loc_fileId :: fileid
  loc_line :: nat
  loc_column :: nat

text \<open>
  \<open>struct Dep : DependencyNode\<close>. The base class keeps \<open>includes\<close>, a map from the file id of
  every directly included file to that file's node; \<open>Dep\<close> adds \<open>references\<close>, from the file
  id of a referenced file to the (from, to) location pairs recorded for it. The lists hold
  the entries in the order the containers iterate them.

  \<open>mDependencies\<close> owns one node per file id, and every node pointer stored in an
  \<open>includes\<close> map is the node that \<open>mDependencies\<close> holds for that id (\<open>handleInclude\<close>
  allocates both ends of an edge there before linking them). A node pointer is therefore
  modelled by its file id, and following it is a lookup in \<open>mDependencies\<close>;
  \<open>header->fileId\<close> is that id.
\<close>

record dep =
  dep_includes :: "fileid list"
  dep_references :: "(fileid \<times> (location \<times> location) list) list"

type_synonym dependencies = "(fileid \<times> dep) list"

definition dep_at :: "dependencies \<Rightarrow> fileid \<Rightarrow> dep" where
  "dep_at g f =
     (case map_of g f of Some d \<Rightarrow> d | None \<Rightarrow> \<lparr>dep_includes = [], dep_references = []\<rparr>)"

text \<open>A failed \<open>assert\<close> aborts the process.\<close>

datatype abort = AssertionFailed

subsection \<open>validateHasInclude\<close>

text \<open>
  The \<open>for\<close> loop of \<open>validateHasInclude\<close> over \<open>cur->includes\<close>: it returns true at the
  first child for which the recursive call is true, false when the children are used up.
  The set \<open>seen\<close> is passed by reference, so each call continues with the set the
  previous one left. \<open>None\<close> stands for a call that does not return.
\<close>

fun hasInclude_children ::
  "(fileid \<Rightarrow> fileid set \<Rightarrow> (abort + bool \<times> fileid set) option) \<Rightarrow>
   fileid list \<Rightarrow> fileid set \<Rightarrow> (abort + bool \<times> fileid set) option" where
  "hasInclude_children f [] seen = Some (Inr (False, seen))"
| "hasInclude_children f (c # cs) seen =
     Option.bind (f c seen)
       (\<lambda>r. case r of
               Inl a \<Rightarrow> Some (Inl a)
             | Inr (b, seen') \<Rightarrow>
                 if b then Some (Inr (True, seen')) else hasInclude_children f cs seen')"

lemma hasInclude_children_mono [partial_function_mono]:
  assumes "\<And>c s. mono_option (\<lambda>f. B f c s)"
  shows "mono_option (\<lambda>f. hasInclude_children (B f) cs s)"
proof (induction cs arbitrary: s)
  case Nil
  show ?case by (simp add: option.const_mono)
next
  case (Cons c cs)
  have step: "mono_option (\<lambda>f. case r of
                 Inl a \<Rightarrow> Some (Inl a)
               | Inr (b, seen') \<Rightarrow>
                   if b then Some (Inr (True, seen'))
                   else hasInclude_children (B f) cs seen')" for r
  proof (cases r)
    case (Inl a)
    then show ?thesis by (simp add: option.const_mono)
  next
    case (Inr p)
    then show ?thesis
      by (cases p) (auto intro!: partial_function_mono Cons.IH)
  qed
  show ?case
    unfolding hasInclude_children.simps
    by (intro bind_mono assms step)
qed

text \<open>
  \<open>static bool validateHasInclude(uint32_t ref, const Dep *cur, Set<uint32_t> &seen)\<close>.
  \<open>assert(cur)\<close> cannot fail for a node taken from \<open>mDependencies\<close>; \<open>assert(ref)\<close> fails for
  the file id 0. \<open>seen.insert(ref)\<close> returns false when \<open>ref\<close> is already in the set.
\<close>

partial_function (option) validateHasInclude ::
  "dependencies \<Rightarrow> fileid \<Rightarrow> fileid \<Rightarrow> fileid set \<Rightarrow> (abort + bool \<times> fileid set) option" where
  "validateHasInclude g ref cur seen =
     (if ref = 0 then Some (Inl AssertionFailed)
      else if ref \<in> set (dep_includes (dep_at g cur)) then Some (Inr (True, seen))
      else if ref \<in> seen then Some (Inr (False, seen))
      else hasInclude_children (validateHasInclude g ref)
             (dep_includes (dep_at g cur)) (insert ref seen))"

subsection \<open>validateNeedsInclude\<close>

text \<open>The \<open>for\<close> loop of \<open>validateNeedsInclude\<close> over \<open>header->includes\<close>.\<close>

fun needsInclude_children ::
  "(fileid \<Rightarrow> fileid set \<Rightarrow> (bool \<times> fileid set) option) \<Rightarrow>
   fileid list \<Rightarrow> fileid set \<Rightarrow> (bool \<times> fileid set) option" where
  "needsInclude_children f [] seen = Some (False, seen)"
| "needsInclude_children f (c # cs) seen =
     Option.bind (f c seen)
       (\<lambda>(b, seen'). if b then Some (True, seen') else needsInclude_children f cs seen')"

lemma needsInclude_children_mono [partial_function_mono]:
  assumes "\<And>c s. mono_option (\<lambda>f. B f c s)"
  shows "mono_option (\<lambda>f. needsInclude_children (B f) cs s)"
proof (induction cs arbitrary: s)
  case Nil
  show ?case by (simp add: option.const_mono)
next
  case (Cons c cs)
  show ?case
    unfolding needsInclude_children.simps
    by (intro bind_mono assms)
       (auto intro!: partial_function_mono Cons.IH split: prod.splits)
qed

text \<open>
  \<open>static bool validateNeedsInclude(const Dep *source, const Dep *header, Set<uint32_t> &seen)\<close>.
\<close>

partial_function (option) validateNeedsInclude ::
  "dependencies \<Rightarrow> fileid \<Rightarrow> fileid \<Rightarrow> fileid set \<Rightarrow> (bool \<times> fileid set) option" where
  "validateNeedsInclude g source header seen =
     (if header \<in> seen then Some (False, seen)
      else if header \<in> fst ` set (dep_references (dep_at g source))
        then Some (True, insert header seen)
      else needsInclude_children (validateNeedsInclude g source)
             (dep_includes (dep_at g header)) (insert header seen))"

subsection \<open>checkIncludes\<close>

text \<open>
  \<open>Location::path\<close> (the process-wide table from file ids to paths) and \<open>Path::isSystem\<close>
  are not part of the two source files; they are parameters of the audit.
\<close>

record audit_env =
  path_of :: "fileid \<Rightarrow> string"
  isSystem :: "string \<Rightarrow> bool"

definition startsWith :: "string \<Rightarrow> string \<Rightarrow> bool" where
  "startsWith s p = (take (length p) s = p)"

text \<open>
  The two messages the audit writes to the connection, with the arguments of their format
  strings: \<open>"%s includes %s for no reason"\<close> and \<open>"%s should include %s (%s)"\<close>. The paths
  are those of the two file ids; the last argument joins one \<open>from=>to\<close> text per recorded
  location pair.
\<close>

datatype report =
  NoReason fileid fileid
| ShouldInclude fileid fileid "(location \<times> location) list"

text \<open>First inner loop of \<open>checkIncludes()\<close>: one fresh \<open>seen\<close> set per included file.\<close>

fun check_needed :: "dependencies \<Rightarrow> fileid \<Rightarrow> fileid list \<Rightarrow> report list option" where
  "check_needed g f [] = Some []"
| "check_needed g f (h # hs) =
     Option.bind (validateNeedsInclude g f h {})
       (\<lambda>(needed, seen).
          Option.bind (check_needed g f hs)
            (\<lambda>rest. Some ((if \<not> needed then [NoReason f h] else []) @ rest)))"

text \<open>Second inner loop of \<open>checkIncludes()\<close>, over the references of one file.\<close>

fun check_referenced ::
  "audit_env \<Rightarrow> dependencies \<Rightarrow> fileid \<Rightarrow> (fileid \<times> (location \<times> location) list) list \<Rightarrow>
   (abort + report list) option" where
  "check_referenced E g f [] = Some (Inr [])"
| "check_referenced E g f ((r, reasons) # refs) =
     (if startsWith (path_of E r) ''/usr/include/sys/_types/_''
         \<or> startsWith (path_of E r) ''/usr/include/_types/_''
      then check_referenced E g f refs
      else
        Option.bind (validateHasInclude g r f {})
          (\<lambda>res. case res of
                    Inl a \<Rightarrow> Some (Inl a)
                  | Inr (has, seen) \<Rightarrow>
                      Option.bind (check_referenced E g f refs)
                        (\<lambda>rest. case rest of
                                   Inl a \<Rightarrow> Some (Inl a)
                                 | Inr rs \<Rightarrow>
                                     Some (Inr ((if \<not> has then [ShouldInclude f r reasons]
                                                 else []) @ rs)))))"

text \<open>
  The outer loop of \<open>checkIncludes()\<close> over \<open>mDependencies\<close>; \<open>ds\<close> is the part of the table
  still to visit, \<open>g\<close> the whole table. The result is the list of messages written, in
  order, or the abort of a failed assertion.
\<close>

fun checkIncludes_loop ::
  "audit_env \<Rightarrow> dependencies \<Rightarrow> dependencies \<Rightarrow> (abort + report list) option" where
  "checkIncludes_loop E g [] = Some (Inr [])"
| "checkIncludes_loop E g ((f, d) # ds) =
     (if isSystem E (path_of E f) then checkIncludes_loop E g ds
      else
        Option.bind (check_needed g f (dep_includes d))
          (\<lambda>r1. Option.bind (check_referenced E g f (dep_references d))
            (\<lambda>res2. case res2 of
                       Inl a \<Rightarrow> Some (Inl a)
                     | Inr r2 \<Rightarrow>
                         Option.bind (checkIncludes_loop E g ds)
                           (\<lambda>res3. case res3 of
                                      Inl a \<Rightarrow> Some (Inl a)
                                    | Inr r3 \<Rightarrow> Some (Inr (r1 @ r2 @ r3))))))"

definition checkIncludes :: "audit_env \<Rightarrow> dependencies \<Rightarrow> (abort + report list) option" where
  "checkIncludes E g = checkIncludes_loop E g g"

text \<open>The edges of the include graph, and reachability along one or more of them.\<close>

definition include_edges :: "dependencies \<Rightarrow> (fileid \<times> fileid) set" where
  "include_edges g = {(a, b). b \<in> set (dep_includes (dep_at g a))}"

section \<open>The command handlers of Daemon\<close>

subsection \<open>State and helpers\<close>

text \<open>
  A \<open>CXTranslationUnit\<close> is a pointer; 0 is the null pointer. \<open>mTranslationUnits\<close> is a
  \<open>QHash<Path, CXTranslationUnit>\<close>; the list holds its entries in iteration order, one per
  key. Beside the cache the state records the effects a handler has on its collaborators:
  the units passed to \<open>clang_disposeTranslationUnit\<close>, and the calls of
  \<open>mParseThread.addFile\<close> and \<open>mParseThread.loadTranslationUnit\<close>, each in order.
\<close>

type_synonym CXTranslationUnit = nat

record daemon =
  mTranslationUnits :: "(string \<times> CXTranslationUnit) list"
  disposed :: "CXTranslationUnit list"
  addFile_calls :: "(string \<times> string list) list"
  loadTranslationUnit_calls :: "string list"

text \<open>
  \<open>Path\<close> (Path.h) is not among the source files. Its filesystem queries are parameters:
  \<open>resolve\<close> yields the resolved path when the path names an existing filesystem object
  (\<open>Path::resolve()\<close> then replaces the path by it and returns true) and \<open>None\<close> otherwise.
\<close>

record filesystem =
  resolve :: "string \<Rightarrow> string option"
  isResolved :: "string \<Rightarrow> bool"
  isFile :: "string \<Rightarrow> bool"

text \<open>\<open>file.resolve()\<close> used as a statement: the path changes only when resolving succeeds.\<close>

definition resolved :: "filesystem \<Rightarrow> string \<Rightarrow> string" where
  "resolved fs p = (case resolve fs p of Some q \<Rightarrow> q | None \<Rightarrow> p)"

text \<open>
  The dashed arguments are a \<open>QHash<QByteArray, QVariant>\<close>; \<open>value(key)\<close> of a missing key
  is an empty variant, whose byte array is empty.
\<close>

definition arg_value :: "(string \<rightharpoonup> string) \<Rightarrow> string \<Rightarrow> string" where
  "arg_value args k = (case args k of Some v \<Rightarrow> v | None \<Rightarrow> [])"

definition createResultMap :: "string \<Rightarrow> (string \<rightharpoonup> string)" where
  "createResultMap r = [''result'' \<mapsto> r]"

text \<open>\<open>joined(container, joinCharacter)\<close>: every element followed by the separator, last one chopped.\<close>

definition joined :: "string list \<Rightarrow> char \<Rightarrow> string" where
  "joined container joinCharacter =
     (let j = concat (map (\<lambda>f. f @ [joinCharacter]) container)
      in if j \<noteq> [] then butlast j else j)"

text \<open>\<open>QByteArray::contains\<close>: the second byte array occurs in the first.\<close>

fun contains_bytes :: "string \<Rightarrow> string \<Rightarrow> bool" where
  "contains_bytes [] b = (b = [])"
| "contains_bytes (c # cs) b = (startsWith (c # cs) b \<or> contains_bytes cs b)"

text \<open>\<open>mTranslationUnits.value(key)\<close>: the default value, a null pointer, for a missing key.\<close>

definition tu_value :: "(string \<times> CXTranslationUnit) list \<Rightarrow> string \<Rightarrow> CXTranslationUnit" where
  "tu_value m k = (case map_of m k of Some u \<Rightarrow> u | None \<Rightarrow> 0)"

text \<open>\<open>mTranslationUnits[key] = u\<close>: overwrite the entry of the key, or add one.\<close>

definition tu_assign ::
  "(string \<times> CXTranslationUnit) list \<Rightarrow> string \<Rightarrow> CXTranslationUnit \<Rightarrow>
   (string \<times> CXTranslationUnit) list" where
  "tu_assign m k u =
     (if k \<in> fst ` set m then map (\<lambda>(k', u'). if k' = k then (k', u) else (k', u')) m
      else m @ [(k, u)])"

subsection \<open>add\<close>

text \<open>\<open>Daemon::addSourceFile\<close>. \<open>GccArguments()\<close> is the empty argument list.\<close>

definition addSourceFile ::
  "filesystem \<Rightarrow> (string \<rightharpoonup> string) \<Rightarrow> daemon \<Rightarrow> (string \<rightharpoonup> string) \<times> daemon" where
  "addSourceFile fs args D =
     (let file = arg_value args ''file'' in
      if file = [] then (createResultMap ''No file to add (use --file=<file>)'', D)
      else case resolve fs file of
             None \<Rightarrow> (createResultMap (file @ '' Doesn't exist''), D)
           | Some file' \<Rightarrow>
               (createResultMap ''File added'',
                D\<lparr>addFile_calls := addFile_calls D @ [(file', [])]\<rparr>))"

subsection \<open>remove\<close>

text \<open>
  \<open>QRegExp\<close> is a library class; whether a pattern is valid and whether it matches
  somewhere in a string are parameters.
\<close>

record regexp_lib =
  rx_isValid :: "string \<Rightarrow> bool"
  rx_contains :: "string \<Rightarrow> string \<Rightarrow> bool"

text \<open>Reading \<open>it.key()\<close> when \<open>it\<close> is the end iterator has no defined result.\<close>

datatype fault = EndIteratorDereferenced

text \<open>
  The \<open>while\<close> loop of \<open>removeSourceFile\<close>. \<open>before\<close> are the entries the iterator has
  passed and kept, the second list the entries from \<open>it\<close> on. On a match the unit is
  disposed, \<open>erase\<close> leaves \<open>it\<close> at the following entry, and then \<open>it.key()\<close> is appended
  to \<open>removed\<close>.
\<close>

fun removeSourceFile_loop ::
  "(string \<Rightarrow> bool) \<Rightarrow> (string \<times> CXTranslationUnit) list \<Rightarrow> (string \<times> CXTranslationUnit) list \<Rightarrow>
   CXTranslationUnit list \<Rightarrow> string list \<Rightarrow>
   fault + ((string \<times> CXTranslationUnit) list \<times> CXTranslationUnit list \<times> string list)" where
  "removeSourceFile_loop matching before [] disp removed = Inr (before, disp, removed)"
| "removeSourceFile_loop matching before ((k, u) # rest) disp removed =
     (if matching k then
        (case rest of
           [] \<Rightarrow> Inl EndIteratorDereferenced
         | (k', u') # rest' \<Rightarrow>
             removeSourceFile_loop matching before rest (disp @ [u]) (removed @ [k']))
      else removeSourceFile_loop matching (before @ [(k, u)]) rest disp removed)"

definition removeSourceFile ::
  "regexp_lib \<Rightarrow> (string \<rightharpoonup> string) \<Rightarrow> string list \<Rightarrow> daemon \<Rightarrow>
   fault + ((string \<rightharpoonup> string) \<times> daemon)" where
  "removeSourceFile R args freeArgs D =
     (let regexp = (''regexp'' \<in> dom args \<or> ''r'' \<in> dom args) in
      case freeArgs of
        [pattern] \<Rightarrow>
          if pattern = [] then
            Inr (createResultMap ''Invalid arguments. I need exactly one free arg'', D)
          else if regexp \<and> (\<not> rx_isValid R pattern \<or> pattern = []) then
            Inr (createResultMap ''Invalid arguments. Bad regexp'', D)
          else
            (case removeSourceFile_loop
                    (\<lambda>key. if regexp then rx_contains R pattern key
                            else contains_bytes key pattern)
                    [] (mTranslationUnits D) (disposed D) [] of
               Inl x \<Rightarrow> Inl x
             | Inr (units, disp, removed) \<Rightarrow>
                 let D' = D\<lparr>mTranslationUnits := units, disposed := disp\<rparr> in
                 if removed = [] then Inr (createResultMap (''No matches for '' @ pattern), D')
                 else Inr (createResultMap (''Removed '' @ joined removed (CHR 0x0A)), D'))
      | _ \<Rightarrow> Inr (createResultMap ''Invalid arguments. I need exactly one free arg'', D))"

subsection \<open>lookupline\<close>

text \<open>
  The calls into the parsing library and the helpers of Utils.h are parameters. \<open>cursorAt\<close>
  is \<open>clang_getCursor\<close> at the \<open>clang_getLocation\<close> of a file, line and column (both
  \<open>unsigned\<close>) of a unit; \<open>instantiationLocation\<close> is the file name, line and column that
  \<open>clang_getInstantiationLocation\<close> gives for the location of a cursor.
\<close>

datatype CXCursorKind = CXCursor_CXXMethod | CXCursor_Other nat

record 'c clang =
  cursorAt :: "CXTranslationUnit \<Rightarrow> string \<Rightarrow> 32 word \<Rightarrow> 32 word \<Rightarrow> 'c"
  isValidCursor :: "'c \<Rightarrow> bool"
  getCursorKind :: "'c \<Rightarrow> CXCursorKind"
  getCanonicalCursor :: "'c \<Rightarrow> 'c"
  getCursorReferenced :: "'c \<Rightarrow> 'c"
  instantiationLocation :: "'c \<Rightarrow> string \<times> 32 word \<times> 32 word"

text \<open>\<open>%u\<close>: an unsigned number in decimal.\<close>

function digits :: "nat \<Rightarrow> string" where
  "digits n =
     (if n < 10 then [''0123456789'' ! n]
      else digits (n div 10) @ [''0123456789'' ! (n mod 10)])"
  by pat_completeness auto
termination
  by (relation "measure id") auto

declare digits.simps [simp del]

definition show_unsigned :: "32 word \<Rightarrow> string" where
  "show_unsigned w = digits (unat w)"

text \<open>
  \<open>Daemon::lookupLine\<close>. The path is resolved when \<open>isResolved()\<close> holds of it. The
  result is formatted by \<open>snprintf(ret, 63, ...)\<close>, which writes at most 62 characters.
  \<open>toInt\<close> is \<open>QVariant::toInt\<close>, a parameter.
\<close>

definition lookupLine_file :: "filesystem \<Rightarrow> (string \<rightharpoonup> string) \<Rightarrow> string" where
  "lookupLine_file fs args =
     (let file = arg_value args ''file''
      in if isResolved fs file then resolved fs file else file)"

definition lookupLine_text :: "string \<times> 32 word \<times> 32 word \<Rightarrow> string" where
  "lookupLine_text l =
     (case l of
        (rfilename, rline, rcolumn) \<Rightarrow>
          ''Symbol (decl) at '' @ rfilename @ '', line '' @ show_unsigned rline
            @ '' column '' @ show_unsigned rcolumn)"

definition lookupLine ::
  "filesystem \<Rightarrow> 'c clang \<Rightarrow> (string \<Rightarrow> int) \<Rightarrow> (string \<rightharpoonup> string) \<Rightarrow> daemon \<Rightarrow>
   (string \<rightharpoonup> string)" where
  "lookupLine fs C toInt args D =
     (if ''file'' \<notin> dom args \<or> ''line'' \<notin> dom args \<or> ''column'' \<notin> dom args
      then createResultMap ''Invalid argument count''
      else
        let file = lookupLine_file fs args;
            line = toInt (arg_value args ''line'');
            column = toInt (arg_value args ''column'')
        in
        if \<not> isFile fs file \<or> line = 0 \<or> column = 0
          then createResultMap ''Invalid argument type''
        else if tu_value (mTranslationUnits D) file = 0
          then createResultMap ''Translation unit not found''
        else
          let unit = tu_value (mTranslationUnits D) file;
              cursor = cursorAt C unit file (word_of_int line) (word_of_int column)
          in
          if \<not> isValidCursor C cursor
            then createResultMap ''Unable to get cursor for location''
          else
            let referenced =
                  (if getCursorKind C cursor = CXCursor_CXXMethod
                   then getCanonicalCursor C cursor
                   else getCursorReferenced C cursor)
            in
            if \<not> isValidCursor C referenced
              then createResultMap ''No referenced cursor''
            else createResultMap (take 62 (lookupLine_text (instantiationLocation C referenced))))"

subsection \<open>load\<close>

text \<open>\<open>Daemon::onFileParsed\<close>.\<close>

definition onFileParsed :: "string \<Rightarrow> CXTranslationUnit \<Rightarrow> daemon \<Rightarrow> daemon" where
  "onFileParsed path translationUnit D =
     (let D1 = (if path \<in> fst ` set (mTranslationUnits D)
                then D\<lparr>disposed := disposed D @ [tu_value (mTranslationUnits D) path]\<rparr>
                else D)
      in D1\<lparr>mTranslationUnits := tu_assign (mTranslationUnits D1) path translationUnit\<rparr>)"

text \<open>
  \<open>Daemon::load\<close>. \<open>freeArgs.value(0)\<close> is empty when there is no free argument; the
  path is resolved unless it is resolved already. \<open>find\<close> reaches the entry of the key,
  \<open>erase\<close> drops it.
\<close>

definition load_path :: "filesystem \<Rightarrow> string list \<Rightarrow> string" where
  "load_path fs freeArgs =
     (let filename = (case freeArgs of [] \<Rightarrow> [] | a # _ \<Rightarrow> a)
      in if \<not> isResolved fs filename then resolved fs filename else filename)"

definition load ::
  "filesystem \<Rightarrow> string list \<Rightarrow> daemon \<Rightarrow> (string \<rightharpoonup> string) \<times> daemon" where
  "load fs freeArgs D =
     (let filename = load_path fs freeArgs in
      if \<not> isFile fs filename then (createResultMap ''No filename specified'', D)
      else
        case map_of (mTranslationUnits D) filename of
          Some u \<Rightarrow>
            if u = 0 then (createResultMap (''File already loading '' @ filename), D)
            else
              (createResultMap ''Loading'',
               D\<lparr>disposed := disposed D @ [u],
                 mTranslationUnits :=
                   tu_assign (filter (\<lambda>e. fst e \<noteq> filename) (mTranslationUnits D)) filename 0,
                 loadTranslationUnit_calls := loadTranslationUnit_calls D @ [filename]\<rparr>)
        | None \<Rightarrow>
            (createResultMap ''Loading'',
             D\<lparr>mTranslationUnits := tu_assign (mTranslationUnits D) filename 0,
               loadTranslationUnit_calls := loadTranslationUnit_calls D @ [filename]\<rparr>))"

subsection \<open>lookup\<close>

text \<open>
  \<open>Node\<close> (Node.h) is not among the source files: the values of its \<open>Type\<close> enumeration
  and \<open>Node::typeToName\<close> are parameters. \<open>typeToName\<close> yields a C string or a null
  pointer (\<open>None\<close>).
\<close>

record node_api =
  Node_None :: "32 word"
  Node_Root :: "32 word"
  Node_MethodDeclaration :: "32 word"
  Node_EnumValue :: "32 word"
  Node_All :: "32 word"
  typeToName :: "32 word \<Rightarrow> string option"

text \<open>\<open>constData()\<close> read as a C string ends at the first zero byte.\<close>

definition c_str :: "string \<Rightarrow> string" where
  "c_str s = takeWhile (\<lambda>c. c \<noteq> CHR 0x00) s"

definition tolower :: "char \<Rightarrow> char" where
  "tolower c =
     (case map_of (zip ''ABCDEFGHIJKLMNOPQRSTUVWXYZ'' ''abcdefghijklmnopqrstuvwxyz'') c of
        Some l \<Rightarrow> l
      | None \<Rightarrow> c)"

text \<open>\<open>!strcasecmp(name, in.constData())\<close>: equal up to the case of ASCII letters.\<close>

definition strcasecmp_equal :: "string \<Rightarrow> string \<Rightarrow> bool" where
  "strcasecmp_equal name inp = (map tolower name = map tolower (c_str inp))"

text \<open>
  The loop of \<open>stringToType\<close>, from the value \<open>i\<close> of its \<open>int\<close> counter on: \<open>i <= EnumValue\<close>
  compares signed, \<open>i <<= 1\<close> shifts within 32 bits. \<open>Q_ASSERT(name)\<close> fails for a null
  pointer.
\<close>

partial_function (option) stringToType_from ::
  "node_api \<Rightarrow> string \<Rightarrow> 32 word \<Rightarrow> (abort + 32 word) option" where
  "stringToType_from N inp i =
     (if word_sle i (Node_EnumValue N) then
        (case typeToName N i of
           None \<Rightarrow> Some (Inl AssertionFailed)
         | Some name \<Rightarrow>
             if strcasecmp_equal name inp then Some (Inr i)
             else stringToType_from N inp (push_bit 1 i))
      else Some (Inr (Node_None N)))"

definition stringToType :: "node_api \<Rightarrow> string \<Rightarrow> (abort + 32 word) option" where
  "stringToType N inp = stringToType_from N inp (Node_MethodDeclaration N)"

text \<open>\<open>QByteArray::split\<close>: the parts between the separators, empty parts included.\<close>

fun split_bytes :: "char \<Rightarrow> string \<Rightarrow> string list" where
  "split_bytes sep [] = ['''']"
| "split_bytes sep (c # cs) =
     (if c = sep then [] # split_bytes sep cs
      else case split_bytes sep cs of
             w # ws \<Rightarrow> (c # w) # ws
           | [] \<Rightarrow> [c # []])"

text \<open>
  The \<open>foreach\<close> loop of \<open>Daemon::lookup\<close> over the entries of \<open>types\<close>, with the mask
  collected so far. It ends with the mask, or with the text of the error it returns.
\<close>

fun lookup_types ::
  "node_api \<Rightarrow> string list \<Rightarrow> 32 word \<Rightarrow> (abort + string + 32 word) option" where
  "lookup_types N [] nodeTypes = Some (Inr (Inr nodeTypes))"
| "lookup_types N (type # rest) nodeTypes =
     (if type = [] then lookup_types N rest nodeTypes
      else
        Option.bind (stringToType N type)
          (\<lambda>r. case r of
                  Inl a \<Rightarrow> Some (Inl a)
                | Inr t \<Rightarrow>
                    if t \<noteq> 0 then lookup_types N rest (or nodeTypes t)
                    else Some (Inr (Inl (''Can't parse type '' @ type)))))"

text \<open>
  \<open>VisitThread\<close> is not among the source files. \<open>lookup_output\<close> is the text that the
  callback has appended to \<open>visitData.output\<close> when \<open>mVisitThread.lookup\<close> returns, for the
  patterns, flags and kind mask it was called with.
\<close>

record visit_thread =
  VisitThread_RegExp :: "32 word"
  lookup_output :: "string list \<Rightarrow> 32 word \<Rightarrow> 32 word \<Rightarrow> string"

text \<open>
  \<open>Daemon::lookup\<close>: the result, and the calls of \<open>mVisitThread.lookup\<close> it has made, each
  with its patterns, flags and kind mask.
\<close>

definition lookup ::
  "node_api \<Rightarrow> visit_thread \<Rightarrow> (string \<rightharpoonup> string) \<Rightarrow> string list \<Rightarrow>
   (abort + (string \<rightharpoonup> string) \<times> (string list \<times> 32 word \<times> 32 word) list) option" where
  "lookup N V args freeArgs =
     Option.bind (lookup_types N (split_bytes (CHR '','') (arg_value args ''types'')) 0)
       (\<lambda>r. case r of
               Inl a \<Rightarrow> Some (Inl a)
             | Inr (Inl err) \<Rightarrow> Some (Inr (createResultMap err, []))
             | Inr (Inr nodeTypes0) \<Rightarrow>
                 let nodeTypes = (if nodeTypes0 = 0 then and (Node_All N) (not (Node_Root N))
                                  else nodeTypes0);
                     flags = (if ''regexp'' \<in> dom args then or 0 (VisitThread_RegExp V) else 0)
                 in Some (Inr (createResultMap (lookup_output V freeArgs flags nodeTypes),
                               [(freeArgs, flags, nodeTypes)])))"

section \<open>The cursor records of ClangThread\<close>

text \<open>
  Modelled from the spec: \<open>Location::isNull\<close> (Location.h is not among the source files).
  A location is null iff its line or its column is zero.
\<close>

definition isNull :: "location \<Rightarrow> bool" where
  "isNull l = (loc_line l = 0 \<or> loc_column l = 0)"

definition nullLocation :: location where
  "nullLocation = \<lparr>loc_fileId = 0, loc_line = 0, loc_column = 0\<rparr>"

text \<open>
  The accessors of the parsing library that \<open>addCursor\<close> calls, as parameters over a type
  of cursors; \<open>clang_equalCursors\<close> is equality. \<open>createLocation\<close> and \<open>linkageSpelling\<close>
  are helpers of RTags. \<open>clang_getCursorExtent\<close> is \<open>None\<close> for a null range, else the
  locations of its start and end; \<open>clang_getTemplateCursorKind\<close> is \<open>None\<close> for
  \<open>CXCursor_NoDeclFound\<close>, else the spelling of the kind. The last field is not of the
  library: \<open>operator_new\<close> is the address at which \<open>new Cursor\<close> puts the record, given the
  addresses at which \<open>Cursor\<close> records exist; it is not one of them.
\<close>

record 'c libclang =
  nullCursor :: 'c
  createLocation :: "'c \<Rightarrow> location"
  clang_getCursorUSR :: "'c \<Rightarrow> string"
  clang_getCursorExtent :: "'c \<Rightarrow> (location \<times> location) option"
  clang_getCursorReferenced :: "'c \<Rightarrow> 'c"
  clang_getCursorKindSpelling :: "'c \<Rightarrow> string"
  linkageSpelling :: "'c \<Rightarrow> string"
  clang_getCursorSpelling :: "'c \<Rightarrow> string"
  clang_getCursorDisplayName :: "'c \<Rightarrow> string"
  clang_Cursor_getMangling :: "'c \<Rightarrow> string"
  clang_getTemplateCursorKind :: "'c \<Rightarrow> string option"
  clang_getCursorLexicalParent :: "'c \<Rightarrow> 'c"
  clang_getCursorSemanticParent :: "'c \<Rightarrow> 'c"
  clang_getCanonicalCursor :: "'c \<Rightarrow> 'c"
  clang_isCursorDefinition :: "'c \<Rightarrow> bool"
  clang_getCursorDefinition :: "'c \<Rightarrow> 'c"
  clang_getSpecializedCursorTemplate :: "'c \<Rightarrow> 'c"
  clang_getOverriddenCursors :: "'c \<Rightarrow> 'c list"
  operator_new :: "nat set \<Rightarrow> nat"

text \<open>
  \<open>ClangThread::Cursor\<close> (declared in ClangThread.h, which is not among the source files):
  the fields that \<open>addCursor\<close> assigns. A \<open>Cursor *\<close> is \<open>None\<close> (null) or an address. A new
  record starts with empty strings, null pointers and null locations.
\<close>

datatype cursor_flag = Definition

record Cursor =
  c_usr :: string
  c_location :: location
  c_rangeStart :: location
  c_rangeEnd :: location
  c_referenced :: "nat option"
  c_kind :: string
  c_linkage :: string
  c_spelling :: string
  c_displayName :: string
  c_mangledName :: string
  c_templateKind :: string
  c_lexicalParent :: "nat option"
  c_semanticParent :: "nat option"
  c_canonical :: "nat option"
  c_flags :: "cursor_flag set"
  c_definition :: "nat option"
  c_specializedCursorTemplate :: "nat option"
  c_overridden :: "nat list"
  c_type :: "nat option"

definition new_Cursor :: Cursor where
  "new_Cursor =
     \<lparr>c_usr = [], c_location = nullLocation, c_rangeStart = nullLocation,
      c_rangeEnd = nullLocation, c_referenced = None, c_kind = [], c_linkage = [],
      c_spelling = [], c_displayName = [], c_mangledName = [], c_templateKind = [],
      c_lexicalParent = None, c_semanticParent = None, c_canonical = None, c_flags = {},
      c_definition = None, c_specializedCursorTemplate = None, c_overridden = [],
      c_type = None\<rparr>"

text \<open>
  The part of \<open>ClangThread\<close> that \<open>addCursor\<close> works on: the \<open>Cursor\<close> records that exist, by
  address, and \<open>mCursorsByUsr\<close>, where \<open>value(usr)\<close> is null (\<open>None\<close>) for a USR without an
  entry. A record exists from \<open>new Cursor\<close> until the \<open>shared_ptr\<close> that owns it is
  destroyed. \<open>mCursorsByUsr\<close> and the pointer fields of a record hold plain addresses,
  whether or not a record exists there.
\<close>

record clang_thread =
  cursors :: "nat \<rightharpoonup> Cursor"
  mCursorsByUsr :: "string \<Rightarrow> nat option"

text \<open>An assignment to fields of the record at the address \<open>c\<close>, where a record exists.\<close>

definition assign :: "nat \<Rightarrow> (Cursor \<Rightarrow> Cursor) \<Rightarrow> clang_thread \<Rightarrow> clang_thread" where
  "assign c f T = T\<lparr>cursors := (cursors T)(c := map_option f (cursors T c))\<rparr>"

text \<open>\<open>ClangThread::addType\<close> returns null.\<close>

definition addType :: "nat option" where
  "addType = None"

text \<open>
  \<open>c->field = addCursor(x)\<close>, where \<open>add\<close> is the call of \<open>addCursor\<close> without a location
  argument and \<open>store\<close> puts the returned pointer into the field.
\<close>

definition assign_addCursor ::
  "('c \<Rightarrow> clang_thread \<Rightarrow> (nat option \<times> clang_thread) option) \<Rightarrow>
   nat \<Rightarrow> (nat option \<Rightarrow> Cursor \<Rightarrow> Cursor) \<Rightarrow> 'c \<Rightarrow> clang_thread \<Rightarrow> clang_thread option" where
  "assign_addCursor add c store x T =
     Option.bind (add x T) (\<lambda>(p, T'). Some (assign c (store p) T'))"

text \<open>
  The loop of \<open>addCursor\<close> over the overridden cursors: a pointer that is not null is
  appended to \<open>c->overridden\<close>.
\<close>

fun addCursor_overridden ::
  "('c \<Rightarrow> clang_thread \<Rightarrow> (nat option \<times> clang_thread) option) \<Rightarrow>
   nat \<Rightarrow> 'c list \<Rightarrow> clang_thread \<Rightarrow> clang_thread option" where
  "addCursor_overridden add c [] T = Some T"
| "addCursor_overridden add c (ov # ovs) T =
     Option.bind (add ov T)
       (\<lambda>(p, T').
          addCursor_overridden add c ovs
            (case p of
               None \<Rightarrow> T'
             | Some q \<Rightarrow> assign c (\<lambda>r. r\<lparr>c_overridden := c_overridden r @ [q]\<rparr>) T'))"

text \<open>
  The statements of \<open>addCursor\<close> from \<open>new Cursor\<close> to the assignment of \<open>c->type\<close>. The
  address of the new record is the choice of \<open>operator_new\<close>, given the addresses at which
  records exist; an address at which a record existed before may be chosen again. The
  result is the address of the record and the state before the function returns, in
  which the record exists.
\<close>

definition addCursor_record ::
  "('c \<Rightarrow> clang_thread \<Rightarrow> (nat option \<times> clang_thread) option) \<Rightarrow>
   'c libclang \<Rightarrow> 'c \<Rightarrow> string \<Rightarrow> location \<Rightarrow> clang_thread \<Rightarrow> (nat \<times> clang_thread) option" where
  "addCursor_record add L cursor usr location T =
     do {
       let c = operator_new L (dom (cursors T));
       let T = T\<lparr>cursors := (cursors T)(c \<mapsto> new_Cursor)\<rparr>;
       let T = assign c (\<lambda>r. r\<lparr>c_usr := usr, c_location := location\<rparr>) T;
       let T = (case clang_getCursorExtent L cursor of
                  None \<Rightarrow> T
                | Some (s, e) \<Rightarrow> assign c (\<lambda>r. r\<lparr>c_rangeStart := s, c_rangeEnd := e\<rparr>) T);
       let ref = clang_getCursorReferenced L cursor;
       T \<leftarrow> (if ref \<noteq> nullCursor L
             then assign_addCursor add c (\<lambda>p r. r\<lparr>c_referenced := p\<rparr>) ref T
             else Some T);
       let T = (if usr \<noteq> [] then T\<lparr>mCursorsByUsr := (mCursorsByUsr T)(usr := Some c)\<rparr> else T);
       let T = assign c (\<lambda>r. r\<lparr>c_kind := clang_getCursorKindSpelling L cursor,
                                 c_linkage := linkageSpelling L cursor,
                                 c_spelling := clang_getCursorSpelling L cursor,
                                 c_displayName := clang_getCursorDisplayName L cursor,
                                 c_mangledName := clang_Cursor_getMangling L cursor\<rparr>) T;
       let T = (case clang_getTemplateCursorKind L cursor of
                  None \<Rightarrow> T
                | Some k \<Rightarrow> assign c (\<lambda>r. r\<lparr>c_templateKind := k\<rparr>) T);
       T \<leftarrow> assign_addCursor add c (\<lambda>p r. r\<lparr>c_lexicalParent := p\<rparr>)
             (clang_getCursorLexicalParent L cursor) T;
       T \<leftarrow> assign_addCursor add c (\<lambda>p r. r\<lparr>c_semanticParent := p\<rparr>)
             (clang_getCursorSemanticParent L cursor) T;
       T \<leftarrow> assign_addCursor add c (\<lambda>p r. r\<lparr>c_lexicalParent := p\<rparr>)
             (clang_getCursorSemanticParent L cursor) T;
       T \<leftarrow> assign_addCursor add c (\<lambda>p r. r\<lparr>c_canonical := p\<rparr>)
             (clang_getCanonicalCursor L cursor) T;
       T \<leftarrow> (if clang_isCursorDefinition L cursor
             then Some (assign c (\<lambda>r. r\<lparr>c_flags := insert Definition (c_flags r)\<rparr>) T)
             else assign_addCursor add c (\<lambda>p r. r\<lparr>c_definition := p\<rparr>)
                    (clang_getCursorDefinition L cursor) T);
       T \<leftarrow> assign_addCursor add c (\<lambda>p r. r\<lparr>c_specializedCursorTemplate := p\<rparr>)
             (clang_getSpecializedCursorTemplate L cursor) T;
       T \<leftarrow> addCursor_overridden add c (clang_getOverriddenCursors L cursor) T;
       let T = assign c (\<lambda>r. r\<lparr>c_type := addType\<rparr>) T;
       Some (c, T)
     }"

text \<open>
  The end of the scope of \<open>c\<close> in \<open>addCursor\<close>: \<open>c\<close> is a \<open>shared_ptr\<close> local to the call and
  the only owner of the record, which is deleted with it. The entry of \<open>mCursorsByUsr\<close>
  stays.
\<close>

definition release :: "nat \<Rightarrow> clang_thread \<Rightarrow> clang_thread" where
  "release c T = T\<lparr>cursors := (cursors T)(c := None)\<rparr>"

text \<open>
  \<open>ClangThread::addCursor\<close>. The recursion follows the cursors that the library hands out
  and need not end; the first argument bounds its depth, and \<open>None\<close> is a call that
  exceeds the bound. A call without a location argument passes the null location. The
  two returns before \<open>new Cursor\<close> leave the state as it is; the return at the end of the
  function, of a null pointer, is the end of the scope of \<open>c\<close>.
\<close>

primrec addCursor ::
  "nat \<Rightarrow> 'c libclang \<Rightarrow> 'c \<Rightarrow> location \<Rightarrow> clang_thread \<Rightarrow> (nat option \<times> clang_thread) option"
where
  "addCursor 0 L cursor location0 T = None"
| "addCursor (Suc n) L cursor location0 T =
     (let location = (if isNull location0 then createLocation L cursor else location0) in
      if isNull location then Some (None, T)
      else
        let usr = clang_getCursorUSR L cursor in
        if usr \<noteq> [] \<and> mCursorsByUsr T usr \<noteq> None then Some (mCursorsByUsr T usr, T)
        else do {
          (c, T) \<leftarrow> addCursor_record (\<lambda>x. addCursor n L x nullLocation) L cursor usr location T;
          Some (None, release c T)
        })"

section \<open>Concrete inputs\<close>

subsection \<open>Include graphs\<close>

text \<open>
  An environment where the files under \<open>/usr/\<close> are system files, and one where no file is.
  File 1 is a source file under \<open>/src\<close>.
\<close>

definition usr_env :: audit_env where
  "usr_env =
     \<lparr>path_of = (\<lambda>f. if f = 1 then ''/src/a.cpp'' else if f = 2 then ''/usr/include/x.h''
                     else if f = 3 then ''/usr/include/y.h'' else ''/usr/include/z.h''),
      isSystem = (\<lambda>p. startsWith p ''/usr/'')\<rparr>"

definition src_env :: audit_env where
  "src_env =
     \<lparr>path_of = (\<lambda>f. if f = 1 then ''/src/a.cpp'' else if f = 2 then ''/src/b.h''
                     else ''/src/c.h''),
      isSystem = (\<lambda>p. startsWith p ''/usr/'')\<rparr>"

definition use_at :: "fileid \<Rightarrow> fileid \<Rightarrow> location \<times> location" where
  "use_at f r = (\<lparr>loc_fileId = f, loc_line = 3, loc_column = 5\<rparr>,
                 \<lparr>loc_fileId = r, loc_line = 1, loc_column = 8\<rparr>)"

text \<open>File 1 includes 2, 2 includes 3, 3 includes 4, and file 1 uses a symbol of file 4.\<close>

definition chain_graph :: dependencies where
  "chain_graph =
     [(1, \<lparr>dep_includes = [2], dep_references = [(4, [use_at 1 4])]\<rparr>),
      (2, \<lparr>dep_includes = [3], dep_references = []\<rparr>),
      (3, \<lparr>dep_includes = [4], dep_references = []\<rparr>),
      (4, \<lparr>dep_includes = [], dep_references = []\<rparr>)]"

text \<open>Files 1 and 2 include themselves and each other; file 1 uses a symbol of file 3.\<close>

definition cyclic_graph :: dependencies where
  "cyclic_graph =
     [(1, \<lparr>dep_includes = [1, 2], dep_references = [(3, [use_at 1 3])]\<rparr>),
      (2, \<lparr>dep_includes = [1, 2], dep_references = []\<rparr>),
      (3, \<lparr>dep_includes = [], dep_references = []\<rparr>)]"

text \<open>File 1 includes file 2 and uses a symbol of it; file 2 includes file 3 and uses none.\<close>

definition direct_graph :: dependencies where
  "direct_graph =
     [(1, \<lparr>dep_includes = [2], dep_references = [(2, [use_at 1 2])]\<rparr>),
      (2, \<lparr>dep_includes = [3], dep_references = []\<rparr>),
      (3, \<lparr>dep_includes = [], dep_references = []\<rparr>)]"

subsection \<open>Daemon states, files and arguments\<close>

text \<open>
  A filesystem with the one regular file \<open>/src/a.cpp\<close>, also reached as \<open>a.cpp\<close>; only the
  absolute path counts as resolved.
\<close>

definition disk :: filesystem where
  "disk =
     \<lparr>resolve = (\<lambda>p. if p = ''a.cpp'' \<or> p = ''/src/a.cpp'' then Some ''/src/a.cpp'' else None),
      isResolved = (\<lambda>p. p = ''/src/a.cpp''),
      isFile = (\<lambda>p. p = ''/src/a.cpp'')\<rparr>"

definition idle :: daemon where
  "idle = \<lparr>mTranslationUnits = [], disposed = [], addFile_calls = [],
           loadTranslationUnit_calls = []\<rparr>"

text \<open>Caches: two parsed units; a load of \<open>/src/a.cpp\<close> in progress; a unit whose file is gone;
  one parsed unit.\<close>

definition two_units :: daemon where
  "two_units = idle\<lparr>mTranslationUnits := [(''/src/a.cpp'', 1), (''/src/b.cpp'', 2)]\<rparr>"

definition loading_a :: daemon where
  "loading_a = idle\<lparr>mTranslationUnits := [(''/src/a.cpp'', 0)]\<rparr>"

definition gone_unit :: daemon where
  "gone_unit = idle\<lparr>mTranslationUnits := [(''/src/gone.cpp'', 7)]\<rparr>"

definition a_parsed :: daemon where
  "a_parsed = idle\<lparr>mTranslationUnits := [(''/src/a.cpp'', 1)]\<rparr>"

text \<open>A regular-expression library that is never asked: the examples match substrings.\<close>

definition no_regexp :: regexp_lib where
  "no_regexp = \<lparr>rx_isValid = (\<lambda>p. False), rx_contains = (\<lambda>p s. False)\<rparr>"

text \<open>
  A unit of three cursors with something behind them: at line 1 a method, whose canonical
  cursor is its declaration in \<open>/src/a.h\<close>; at line 2 the use of a variable declared at
  line 12; at line 3 a literal, which refers to nothing.
\<close>

datatype ast_cursor = NoCursor | MethodCall | MethodDecl | VarUse | VarDecl | Literal

definition tiny_ast :: "ast_cursor clang" where
  "tiny_ast =
     \<lparr>cursorAt = (\<lambda>unit file line column.
                   if line = 1 then MethodCall else if line = 2 then VarUse
                   else if line = 3 then Literal else NoCursor),
      isValidCursor = (\<lambda>c. c \<noteq> NoCursor),
      getCursorKind = (\<lambda>c. if c = MethodCall then CXCursor_CXXMethod else CXCursor_Other 0),
      getCanonicalCursor = (\<lambda>c. if c = MethodCall then MethodDecl else c),
      getCursorReferenced = (\<lambda>c. if c = VarUse then VarDecl else NoCursor),
      instantiationLocation = (\<lambda>c. if c = MethodDecl then (''/src/a.h'', 7, 9)
                                     else (''/src/a.cpp'', 12, 5))\<rparr>"

text \<open>\<open>toInt\<close> on the three numbers the examples pass, and 0 for anything else.\<close>

definition digit_value :: "string \<Rightarrow> int" where
  "digit_value s = (if s = ''1'' then 1 else if s = ''2'' then 2 else if s = ''3'' then 3 else 0)"

definition at_line :: "string \<Rightarrow> (string \<rightharpoonup> string)" where
  "at_line l = [''file'' \<mapsto> ''/src/a.cpp'', ''line'' \<mapsto> l, ''column'' \<mapsto> ''1'']"

text \<open>Node kinds as distinct bits, with the names of four of them, and a visit thread without nodes.\<close>

definition kinds :: node_api where
  "kinds =
     \<lparr>Node_None = 0, Node_Root = 1, Node_MethodDeclaration = 2, Node_EnumValue = 16,
      Node_All = 31,
      typeToName = (\<lambda>t. if t = 2 then Some ''MethodDeclaration''
                         else if t = 4 then Some ''MethodDefinition''
                         else if t = 8 then Some ''Class''
                         else if t = 16 then Some ''EnumValue'' else None)\<rparr>"

definition visitor :: visit_thread where
  "visitor = \<lparr>VisitThread_RegExp = 1, lookup_output = (\<lambda>patterns flags mask. [])\<rparr>"

subsection \<open>Translation units for addCursor\<close>

text \<open>
  The cursors of a file that includes a header, defines two macros and, out of line, a
  method \<open>f\<close> of a class \<open>A\<close> in a namespace \<open>n\<close>. A declaration has a USR and is its own
  referenced cursor and its own definition; the semantic parent of the method is the
  class, its lexical parent the namespace. A macro definition has a USR, refers to
  nothing and has no parents; an inclusion directive is like it, without a USR. Every
  cursor is its own canonical cursor. \<open>new\<close> takes address 0 or else 1 when no record
  exists there, else an address above all records.
\<close>

datatype node = NoNode | Include_h | Define_N | Define_M | Namespace_n | Class_A | Method_f

definition is_declaration :: "node \<Rightarrow> bool" where
  "is_declaration x = (x = Namespace_n \<or> x = Class_A \<or> x = Method_f)"

definition node_at :: "nat \<Rightarrow> location" where
  "node_at l = \<lparr>loc_fileId = 1, loc_line = l, loc_column = 1\<rparr>"

definition translation_unit :: "node libclang" where
  "translation_unit =
     \<lparr>nullCursor = NoNode,
      createLocation = (\<lambda>x. case x of NoNode \<Rightarrow> nullLocation | Include_h \<Rightarrow> node_at 1
                               | Define_N \<Rightarrow> node_at 2 | Define_M \<Rightarrow> node_at 3
                               | Namespace_n \<Rightarrow> node_at 4 | Class_A \<Rightarrow> node_at 5
                               | Method_f \<Rightarrow> node_at 8),
      clang_getCursorUSR = (\<lambda>x. case x of NoNode \<Rightarrow> [] | Include_h \<Rightarrow> []
                                   | Define_N \<Rightarrow> ''c:a.cpp@20@macro@N''
                                   | Define_M \<Rightarrow> ''c:a.cpp@31@macro@M''
                                   | Namespace_n \<Rightarrow> ''c:@N@n'' | Class_A \<Rightarrow> ''c:@N@n@S@A''
                                   | Method_f \<Rightarrow> ''c:@N@n@S@A@F@f#''),
      clang_getCursorExtent = (\<lambda>x. None),
      clang_getCursorReferenced = (\<lambda>x. if is_declaration x then x else NoNode),
      clang_getCursorKindSpelling = (\<lambda>x. []),
      linkageSpelling = (\<lambda>x. []),
      clang_getCursorSpelling = (\<lambda>x. []),
      clang_getCursorDisplayName = (\<lambda>x. []),
      clang_Cursor_getMangling = (\<lambda>x. []),
      clang_getTemplateCursorKind = (\<lambda>x. None),
      clang_getCursorLexicalParent = (\<lambda>x. case x of Method_f \<Rightarrow> Namespace_n
                                             | Class_A \<Rightarrow> Namespace_n | _ \<Rightarrow> NoNode),
      clang_getCursorSemanticParent = (\<lambda>x. case x of Method_f \<Rightarrow> Class_A
                                              | Class_A \<Rightarrow> Namespace_n | _ \<Rightarrow> NoNode),
      clang_getCanonicalCursor = (\<lambda>x. x),
      clang_isCursorDefinition = is_declaration,
      clang_getCursorDefinition = (\<lambda>x. if is_declaration x then x else NoNode),
      clang_getSpecializedCursorTemplate = (\<lambda>x. NoNode),
      clang_getOverriddenCursors = (\<lambda>x. []),
      operator_new = (\<lambda>live. if 0 \<notin> live then 0 else if 1 \<notin> live then 1
                             else Suc (Max live))\<rparr>"


definition fresh :: clang_thread where
  "fresh = \<lparr>cursors = Map.empty, mCursorsByUsr = (\<lambda>u. None)\<rparr>"

section \<open>Properties of the include audit\<close>

subsection \<open>Both searches return\<close>

lemma needsInclude_children_returns:
  assumes "\<And>c s. S \<subseteq> s \<Longrightarrow> \<exists>b s'. f c s = Some (b, s') \<and> s \<subseteq> s'"
  shows "S \<subseteq> s \<Longrightarrow> \<exists>b s'. needsInclude_children f cs s = Some (b, s') \<and> s \<subseteq> s'"
proof (induction cs arbitrary: s)
  case Nil
  then show ?case by auto
next
  case (Cons c cs)
  from assms[OF Cons.prems, of c] obtain b s1 where c: "f c s = Some (b, s1)" and sub: "s \<subseteq> s1"
    by blast
  show ?case
  proof (cases b)
    case True
    with c sub show ?thesis by auto
  next
    case False
    from Cons.prems sub have "S \<subseteq> s1" by blast
    from Cons.IH[OF this] obtain b' s2
      where "needsInclude_children f cs s1 = Some (b', s2)" and "s1 \<subseteq> s2" by blast
    with c sub False show ?thesis by auto
  qed
qed

text \<open>
  Every call that goes on inserts a file id that \<open>seen\<close> did not hold, and there are
  finitely many file ids: induction on the number of ids outside \<open>seen\<close>.
\<close>

lemma validateNeedsInclude_returns:
  "\<exists>b s'. validateNeedsInclude g src h seen = Some (b, s') \<and> seen \<subseteq> s'"
proof (induction "card (- seen)" arbitrary: h seen rule: less_induct)
  case less
  show ?case
  proof (cases "h \<in> seen")
    case True
    then show ?thesis by (subst validateNeedsInclude.simps) auto
  next
    case unseen: False
    show ?thesis
    proof (cases "h \<in> fst ` set (dep_references (dep_at g src))")
      case True
      with unseen show ?thesis by (subst validateNeedsInclude.simps) auto
    next
      case False
      have "- insert h seen \<subset> - seen" using unseen by blast
      then have lt: "card (- insert h seen) < card (- seen)"
        by (intro psubset_card_mono) simp_all
      have kids: "\<exists>b s'. validateNeedsInclude g src c s = Some (b, s') \<and> s \<subseteq> s'"
        if "insert h seen \<subseteq> s" for c s
      proof -
        from that have "- s \<subseteq> - insert h seen" by blast
        then have "card (- s) \<le> card (- insert h seen)" by (intro card_mono) simp_all
        with lt have "card (- s) < card (- seen)" by simp
        then show ?thesis by (rule less.hyps)
      qed
      from needsInclude_children_returns[of "insert h seen" "validateNeedsInclude g src",
             OF kids subset_refl]
      obtain b s' where
        "needsInclude_children (validateNeedsInclude g src) (dep_includes (dep_at g h))
           (insert h seen) = Some (b, s')" and "insert h seen \<subseteq> s'"
        by blast
      with unseen False show ?thesis by (subst validateNeedsInclude.simps) auto
    qed
  qed
qed

lemma hasInclude_children_seen:
  assumes "\<And>c. \<exists>r. f c s = Some r \<and> (\<forall>b s'. r = Inr (b, s') \<longrightarrow> s' = s)"
  shows "\<exists>r. hasInclude_children f cs s = Some r \<and> (\<forall>b s'. r = Inr (b, s') \<longrightarrow> s' = s)"
proof (induction cs)
  case Nil
  show ?case by simp
next
  case (Cons c cs)
  from assms[of c] obtain r where c: "f c s = Some r"
    and same: "\<forall>b s'. r = Inr (b, s') \<longrightarrow> s' = s"
    by blast
  show ?case
  proof (cases r)
    case (Inl a)
    with c show ?thesis by simp
  next
    case (Inr p)
    obtain b s' where p: "p = (b, s')" by (cases p)
    with Inr same have "s' = s" by simp
    with c Inr p Cons.IH show ?thesis by (cases b) auto
  qed
qed

text \<open>Once \<open>ref\<close> is in \<open>seen\<close>, a call returns at once and leaves \<open>seen\<close> as it is.\<close>

lemma validateHasInclude_seen:
  assumes "ref \<in> seen"
  shows "\<exists>r. validateHasInclude g ref cur seen = Some r
             \<and> (\<forall>b s'. r = Inr (b, s') \<longrightarrow> s' = seen)"
  using assms by (subst validateHasInclude.simps) simp

lemma validateHasInclude_returns: "\<exists>r. validateHasInclude g ref cur seen = Some r"
proof (cases "ref = 0 \<or> ref \<in> set (dep_includes (dep_at g cur)) \<or> ref \<in> seen")
  case True
  then show ?thesis by (subst validateHasInclude.simps) auto
next
  case False
  have "\<exists>r. hasInclude_children (validateHasInclude g ref) (dep_includes (dep_at g cur))
               (insert ref seen) = Some r
          \<and> (\<forall>b s'. r = Inr (b, s') \<longrightarrow> s' = insert ref seen)"
    by (rule hasInclude_children_seen) (rule validateHasInclude_seen, simp)
  with False show ?thesis by (subst validateHasInclude.simps) auto
qed

lemma check_needed_returns: "\<exists>rs. check_needed g f hs = Some rs"
proof (induction hs)
  case Nil
  show ?case by simp
next
  case (Cons h hs)
  obtain b s where "validateNeedsInclude g f h {} = Some (b, s)"
    using validateNeedsInclude_returns[of g f h "{}"] by blast
  with Cons show ?case by auto
qed

lemma check_referenced_returns: "\<exists>res. check_referenced E g f refs = Some res"
proof (induction refs)
  case Nil
  show ?case by simp
next
  case (Cons x refs)
  obtain r reasons where x: "x = (r, reasons)" by (cases x)
  obtain res where v: "validateHasInclude g r f {} = Some res"
    using validateHasInclude_returns[of g r f "{}"] by blast
  from Cons obtain rest where rest: "check_referenced E g f refs = Some rest" by blast
  show ?case unfolding x using v rest
    by (cases res; cases rest) (auto split: prod.splits)
qed

lemma checkIncludes_loop_returns: "\<exists>res. checkIncludes_loop E g ds = Some res"
proof (induction ds)
  case Nil
  show ?case by simp
next
  case (Cons x ds)
  obtain f d where x: "x = (f, d)" by (cases x)
  obtain r1 where r1: "check_needed g f (dep_includes d) = Some r1"
    using check_needed_returns by blast
  obtain r2 where r2: "check_referenced E g f (dep_references d) = Some r2"
    using check_referenced_returns by blast
  from Cons obtain r3 where r3: "checkIncludes_loop E g ds = Some r3" by blast
  show ?case unfolding x using r1 r2 r3
    by (cases r2; cases r3) auto
qed

text \<open>
  C4 (cycle safety). On every dependency table, with whatever include edges (self-loops
  and mutual includes among them), from every start and every \<open>seen\<close> set,
  \<open>validateNeedsInclude\<close> returns and \<open>validateHasInclude\<close> returns, and so the audit at
  the end of the walk, \<open>checkIncludes\<close>, returns.
\<close>

theorem cycle_safety:
  "validateNeedsInclude g source header seen \<noteq> None
   \<and> validateHasInclude g ref cur seen' \<noteq> None
   \<and> checkIncludes E g \<noteq> None"
  using validateNeedsInclude_returns[of g source header seen]
        validateHasInclude_returns[of g ref cur seen']
        checkIncludes_loop_returns[of E g g]
  by (auto simp: checkIncludes_def)

text \<open>The searches on a table where files 1 and 2 include themselves and each other.\<close>

theorem cycle_safety_witness:
  "validateNeedsInclude cyclic_graph 2 1 {} \<noteq> None
   \<and> validateHasInclude cyclic_graph 3 1 {} \<noteq> None
   \<and> checkIncludes src_env cyclic_graph \<noteq> None"
  by (rule cycle_safety)

subsection \<open>An include that is used is not reported\<close>

lemma dep_at_distinct:
  "distinct (map fst g) \<Longrightarrow> (f, d) \<in> set g \<Longrightarrow> dep_at g f = d"
  by (simp add: dep_at_def)

lemma validateNeedsInclude_referenced:
  "header \<in> fst ` set (dep_references (dep_at g source)) \<Longrightarrow>
   validateNeedsInclude g source header {} = Some (True, {header})"
  by (subst validateNeedsInclude.simps) simp

lemma check_needed_NoReason:
  "check_needed g f hs = Some rs \<Longrightarrow> NoReason a b \<in> set rs \<Longrightarrow>
   a = f \<and> b \<in> set hs \<and> (\<exists>s. validateNeedsInclude g f b {} = Some (False, s))"
proof (induction hs arbitrary: rs)
  case Nil
  then show ?case by simp
next
  case (Cons h hs)
  then show ?case
    by (auto split: bind_splits if_splits)
qed

lemma check_referenced_NoReason:
  "check_referenced E g f refs = Some (Inr rs) \<Longrightarrow> NoReason a b \<notin> set rs"
proof (induction refs arbitrary: rs)
  case Nil
  then show ?case by simp
next
  case (Cons x refs)
  obtain r reasons where x: "x = (r, reasons)" by (cases x)
  from Cons show ?case unfolding x
    by (auto split: bind_splits if_splits sum.splits)
qed

lemma checkIncludes_loop_NoReason:
  "checkIncludes_loop E g ds = Some (Inr rs) \<Longrightarrow> NoReason a b \<in> set rs \<Longrightarrow>
   \<exists>d s. (a, d) \<in> set ds \<and> b \<in> set (dep_includes d)
      \<and> validateNeedsInclude g a b {} = Some (False, s)"
proof (induction ds arbitrary: rs)
  case Nil
  then show ?case by simp
next
  case (Cons x ds)
  obtain f d where x: "x = (f, d)" by (cases x)
  show ?case
  proof (cases "isSystem E (path_of E f)")
    case True
    with Cons.prems x have "checkIncludes_loop E g ds = Some (Inr rs)" by simp
    from Cons.IH[OF this Cons.prems(2)] show ?thesis by auto
  next
    case False
    with Cons.prems(1) x obtain r1 r2 r3 where
      r1: "check_needed g f (dep_includes d) = Some r1" and
      r2: "check_referenced E g f (dep_references d) = Some (Inr r2)" and
      r3: "checkIncludes_loop E g ds = Some (Inr r3)" and
      rs: "rs = r1 @ r2 @ r3"
      by (auto split: bind_splits sum.splits)
    from Cons.prems(2) rs check_referenced_NoReason[OF r2]
    consider "NoReason a b \<in> set r1" | "NoReason a b \<in> set r3" by auto
    then show ?thesis
    proof cases
      case 1
      from check_needed_NoReason[OF r1 1] x show ?thesis by auto
    next
      case 2
      from Cons.IH[OF r3 2] show ?thesis by auto
    qed
  qed
qed

text \<open>
  C3 (include audit reflexivity). Let the dependency table hold one node per file id, let
  \<open>d\<close> be the node of the audited file \<open>F\<close>, let \<open>F\<close> include \<open>H\<close> directly, and let the
  references of \<open>F\<close> have an entry for the file id \<open>H\<close>. Then the messages that the audit
  writes do not contain "\<open>F\<close> includes \<open>H\<close> for no reason".
\<close>

theorem include_audit_reflexivity:
  assumes "distinct (map fst g)"
    and "(F, d) \<in> set g"
    and "H \<in> set (dep_includes d)"
    and "H \<in> fst ` set (dep_references d)"
    and "checkIncludes E g = Some (Inr reports)"
  shows "NoReason F H \<notin> set reports"
proof
  assume "NoReason F H \<in> set reports"
  with assms(5) obtain s where "validateNeedsInclude g F H {} = Some (False, s)"
    unfolding checkIncludes_def by (blast dest: checkIncludes_loop_NoReason)
  moreover have "dep_at g F = d" using assms(1,2) by (rule dep_at_distinct)
  then have "validateNeedsInclude g F H {} = Some (True, {H})"
    using assms(4) by (simp add: validateNeedsInclude_referenced)
  ultimately show False by simp
qed

text \<open>
  In \<open>direct_graph\<close> file 1 includes file 2 and refers to it: the audit reports the unused
  include of file 3 by file 2, and nothing for the pair (1, 2).
\<close>

theorem include_audit_reflexivity_witness:
  "checkIncludes src_env direct_graph = Some (Inr [NoReason 2 3])
   \<and> NoReason 1 2 \<notin> set [NoReason 2 3]"
proof -
  have ev: "checkIncludes src_env direct_graph = Some (Inr [NoReason 2 3])"
    by (simp add: checkIncludes_def direct_graph_def src_env_def startsWith_def dep_at_def
        validateNeedsInclude.simps validateHasInclude.simps)
  have "NoReason 1 2 \<notin> set [NoReason 2 3]"
    by (rule include_audit_reflexivity[of direct_graph 1
          "\<lparr>dep_includes = [2], dep_references = [(2, [use_at 1 2])]\<rparr>" 2 src_env, OF _ _ _ _ ev])
       (simp_all add: direct_graph_def)
  with ev show ?thesis by simp
qed

subsection \<open>A referenced file behind a chain of three includes\<close>

lemma chain_graph_edges:
  "(1, 2) \<in> include_edges chain_graph" "(2, 3) \<in> include_edges chain_graph"
  "(3, 4) \<in> include_edges chain_graph"
  by (simp_all add: include_edges_def chain_graph_def dep_at_def)

text \<open>
  C1 (include audit reachability). The claim says that "F should include R" is written if
  and only if \<open>R\<close> is not reachable from \<open>F\<close> along include edges. In \<open>chain_graph\<close> file 4
  is reachable from file 1 by the chain 1, 2, 3, 4, and file 1 refers to file 4; the audit
  writes "1 should include 4" all the same. \<open>validateHasInclude\<close> puts \<open>ref\<close> into \<open>seen\<close>,
  not the file it is visiting, so each call below the first ends at its second test and the
  search sees the includes of the file and of the files it includes directly, no further.
\<close>

theorem should_include_reported_for_reachable_file:
  "checkIncludes usr_env chain_graph = Some (Inr [ShouldInclude 1 4 [use_at 1 4]])
   \<and> (1, 4) \<in> (include_edges chain_graph)\<^sup>+"
proof -
  have "checkIncludes usr_env chain_graph = Some (Inr [ShouldInclude 1 4 [use_at 1 4]])"
    by (simp add: checkIncludes_def chain_graph_def usr_env_def startsWith_def dep_at_def
        validateNeedsInclude.simps validateHasInclude.simps)
  moreover have "(1, 4) \<in> (include_edges chain_graph)\<^sup>+"
    using chain_graph_edges by (meson trancl.intros)
  ultimately show ?thesis by simp
qed

section \<open>Properties of the command handlers\<close>

lemma createResultMap_eq [simp]: "createResultMap a = createResultMap b \<longleftrightarrow> a = b"
  by (auto simp: createResultMap_def dest: fun_upd_eqD)

subsection \<open>add\<close>

text \<open>
  C7. \<open>add\<close> with an empty or missing \<open>file\<close> argument returns "No file to add ..." and
  with a path that does not resolve returns "<path> Doesn't exist"; in both cases the
  daemon is unchanged, so \<open>mParseThread.addFile\<close> has not been called. With a path that
  resolves it returns "File added" and has called \<open>addFile\<close> exactly once, with the
  resolved path and the empty argument list.
\<close>

theorem add_resolves_then_enqueues:
  "(arg_value args ''file'' = [] \<longrightarrow>
      addSourceFile fs args D = (createResultMap ''No file to add (use --file=<file>)'', D))
   \<and> (arg_value args ''file'' \<noteq> [] \<and> resolve fs (arg_value args ''file'') = None \<longrightarrow>
      addSourceFile fs args D = (createResultMap (arg_value args ''file'' @ '' Doesn't exist''), D))
   \<and> (arg_value args ''file'' \<noteq> [] \<and> resolve fs (arg_value args ''file'') = Some p \<longrightarrow>
      addSourceFile fs args D =
        (createResultMap ''File added'', D\<lparr>addFile_calls := addFile_calls D @ [(p, [])]\<rparr>))"
  by (simp add: addSourceFile_def Let_def)

theorem add_resolves_then_enqueues_witness:
  "addSourceFile disk Map.empty idle = (createResultMap ''No file to add (use --file=<file>)'', idle)
   \<and> addSourceFile disk [''file'' \<mapsto> ''b.cpp''] idle = (createResultMap ''b.cpp Doesn't exist'', idle)
   \<and> addSourceFile disk [''file'' \<mapsto> ''a.cpp''] idle =
        (createResultMap ''File added'', idle\<lparr>addFile_calls := [(''/src/a.cpp'', [])]\<rparr>)"
  using add_resolves_then_enqueues[where args = Map.empty and fs = disk and D = idle]
        add_resolves_then_enqueues[where args = "[''file'' \<mapsto> ''b.cpp'']" and fs = disk and D = idle]
        add_resolves_then_enqueues[where args = "[''file'' \<mapsto> ''a.cpp'']" and fs = disk and D = idle
          and p = "''/src/a.cpp''"]
  by (simp add: arg_value_def disk_def idle_def)

subsection \<open>remove\<close>

text \<open>
  C2. The claim says that the result of \<open>remove\<close> lists exactly the paths of the entries
  it removed. With \<open>/src/a.cpp\<close> and \<open>/src/b.cpp\<close> cached, in this order, \<open>remove a.cpp\<close>
  disposes and erases the unit of \<open>/src/a.cpp\<close> and answers "Removed /src/b.cpp": the key
  is read from the iterator after \<open>erase\<close> has moved it to the following entry.
\<close>

theorem remove_lists_following_entry:
  "removeSourceFile no_regexp Map.empty [''a.cpp''] two_units =
     Inr (createResultMap ''Removed /src/b.cpp'',
          two_units\<lparr>mTranslationUnits := [(''/src/b.cpp'', 2)], disposed := [1]\<rparr>)"
  by (simp add: removeSourceFile_def two_units_def idle_def startsWith_def joined_def)

text \<open>The entry of \<open>/src/a.cpp\<close> is gone, and the answer does not name it.\<close>

theorem remove_lists_following_entry_witness:
  "(\<exists>D'. removeSourceFile no_regexp Map.empty [''a.cpp''] two_units =
            Inr (createResultMap ''Removed /src/b.cpp'', D')
          \<and> map_of (mTranslationUnits D') ''/src/a.cpp'' = None
          \<and> disposed D' = [1])
   \<and> removeSourceFile no_regexp Map.empty [''a.cpp''] two_units \<noteq>
         Inr (createResultMap ''Removed /src/a.cpp'',
              two_units\<lparr>mTranslationUnits := [(''/src/b.cpp'', 2)], disposed := [1]\<rparr>)"
  using remove_lists_following_entry by simp

subsection \<open>load\<close>

lemma map_of_tu_assign:
  "map_of (tu_assign m k u) k' = (if k' = k then Some u else map_of m k')"
proof (cases "k \<in> fst ` set m")
  case True
  have "map_of (map (\<lambda>(a, b). if a = k then (a, u) else (a, b)) m) k'
          = (if k' = k then (if k \<in> fst ` set m then Some u else None) else map_of m k')"
    by (induction m) (auto split: if_splits)
  with True show ?thesis by (simp add: tu_assign_def)
next
  case False
  then have "map_of m k = None" by (simp add: map_of_eq_None_iff)
  with False show ?thesis by (auto simp: tu_assign_def map_add_def split: option.splits)
qed

lemma map_of_filter_key:
  "map_of (filter (\<lambda>e. fst e \<noteq> k) m) k' = (if k' = k then None else map_of m k')"
  by (induction m) auto

text \<open>
  C10, as amended. Let the path that \<open>load\<close> works on be a regular file. If its cache
  entry is the null sentinel, the result is "File already loading <path>" and the daemon is
  unchanged (no load is started). Otherwise the result is "Loading", the unit that the
  cache held for the path, if any, has been disposed, the cache maps the path to the null
  sentinel and every other path as before, and \<open>loadTranslationUnit\<close> has been called once
  for the path.
\<close>

theorem load_on_regular_file:
  assumes "isFile fs (load_path fs freeArgs)"
    and "load fs freeArgs D = (res, D')"
  shows "(map_of (mTranslationUnits D) (load_path fs freeArgs) = Some 0 \<longrightarrow>
            res = createResultMap (''File already loading '' @ load_path fs freeArgs) \<and> D' = D)
       \<and> (map_of (mTranslationUnits D) (load_path fs freeArgs) \<noteq> Some 0 \<longrightarrow>
            res = createResultMap ''Loading''
            \<and> disposed D' = disposed D @
                 (case map_of (mTranslationUnits D) (load_path fs freeArgs) of
                    Some u \<Rightarrow> [u] | None \<Rightarrow> [])
            \<and> map_of (mTranslationUnits D') (load_path fs freeArgs) = Some 0
            \<and> (\<forall>k. k \<noteq> load_path fs freeArgs \<longrightarrow>
                   map_of (mTranslationUnits D') k = map_of (mTranslationUnits D) k)
            \<and> loadTranslationUnit_calls D' =
                 loadTranslationUnit_calls D @ [load_path fs freeArgs]
            \<and> addFile_calls D' = addFile_calls D)"
  using assms
  by (auto simp: load_def Let_def map_of_tu_assign map_of_filter_key
           split: option.splits if_splits)

theorem load_on_regular_file_witness:
  "load disk [''a.cpp''] loading_a =
     (createResultMap ''File already loading /src/a.cpp'', loading_a)
   \<and> fst (load disk [''a.cpp''] two_units) = createResultMap ''Loading''
   \<and> disposed (snd (load disk [''a.cpp''] two_units)) = [1]
   \<and> map_of (mTranslationUnits (snd (load disk [''a.cpp''] two_units))) ''/src/a.cpp'' = Some 0
   \<and> loadTranslationUnit_calls (snd (load disk [''a.cpp''] two_units)) = [''/src/a.cpp'']"
proof -
  have p: "load_path disk [''a.cpp''] = ''/src/a.cpp''"
    by (simp add: load_path_def disk_def resolved_def)
  have f: "isFile disk (load_path disk [''a.cpp''])" by (simp add: p) (simp add: disk_def)
  from load_on_regular_file[OF f, of loading_a "fst (load disk [''a.cpp''] loading_a)"
         "snd (load disk [''a.cpp''] loading_a)"]
       load_on_regular_file[OF f, of two_units "fst (load disk [''a.cpp''] two_units)"
         "snd (load disk [''a.cpp''] two_units)"]
  show ?thesis
    by (simp add: p) (simp add: loading_a_def two_units_def idle_def prod_eq_iff)
qed

text \<open>
  C10 as stated fails where the path is not a regular file: the cache holds the unit 7
  for \<open>/src/gone.cpp\<close>, not the sentinel, and \<open>load\<close> answers "No filename specified",
  disposes nothing, leaves the entry and starts no load.
\<close>

theorem load_of_missing_file_changes_nothing:
  "load disk [''/src/gone.cpp''] gone_unit = (createResultMap ''No filename specified'', gone_unit)
   \<and> map_of (mTranslationUnits gone_unit) ''/src/gone.cpp'' = Some 7
   \<and> disposed gone_unit = [] \<and> loadTranslationUnit_calls gone_unit = []"
  by (simp add: load_def load_path_def disk_def gone_unit_def idle_def resolved_def)

subsection \<open>lookupline\<close>

text \<open>
  C5, as amended. Let the arguments \<open>file\<close>, \<open>line\<close> and \<open>column\<close> be given, the path a
  regular file, line and column not zero, a translation unit cached for the path and the
  cursor at that place valid. The cursor resolved is the canonical cursor when the kind is
  a C++ method and the referenced cursor otherwise. If the resolved cursor is not valid the
  result is "No referenced cursor". If it is valid and the text
  "Symbol (decl) at <path>, line L column C" for its location has at most 62 characters,
  the result is that text.
\<close>

theorem lookupline_resolves_cursor:
  assumes "''file'' \<in> dom args" "''line'' \<in> dom args" "''column'' \<in> dom args"
    and "isFile fs (lookupLine_file fs args)"
    and "toInt (arg_value args ''line'') \<noteq> 0"
    and "toInt (arg_value args ''column'') \<noteq> 0"
    and "tu_value (mTranslationUnits D) (lookupLine_file fs args) \<noteq> 0"
    and "cursor = cursorAt C (tu_value (mTranslationUnits D) (lookupLine_file fs args))
                    (lookupLine_file fs args)
                    (word_of_int (toInt (arg_value args ''line'')))
                    (word_of_int (toInt (arg_value args ''column'')))"
    and "isValidCursor C cursor"
    and "referenced = (if getCursorKind C cursor = CXCursor_CXXMethod
                       then getCanonicalCursor C cursor else getCursorReferenced C cursor)"
  shows "(\<not> isValidCursor C referenced \<longrightarrow>
            lookupLine fs C toInt args D = createResultMap ''No referenced cursor'')
       \<and> (isValidCursor C referenced
            \<and> length (lookupLine_text (instantiationLocation C referenced)) \<le> 62 \<longrightarrow>
            lookupLine fs C toInt args D =
              createResultMap (lookupLine_text (instantiationLocation C referenced)))"
  using assms by (simp add: lookupLine_def Let_def)

lemma lookupLine_text_examples:
  "lookupLine_text (''/src/a.h'', 7, 9) = ''Symbol (decl) at /src/a.h, line 7 column 9''"
  "lookupLine_text (''/src/a.cpp'', 12, 5) = ''Symbol (decl) at /src/a.cpp, line 12 column 5''"
  by (simp_all add: lookupLine_text_def show_unsigned_def digits.simps)

lemma tiny_ast_cursors:
  "cursorAt tiny_ast u f 1 1 = MethodCall" "cursorAt tiny_ast u f 2 1 = VarUse"
  "cursorAt tiny_ast u f 3 1 = Literal"
  "isValidCursor tiny_ast c = (c \<noteq> NoCursor)"
  "getCursorKind tiny_ast MethodCall = CXCursor_CXXMethod"
  "getCursorKind tiny_ast VarUse \<noteq> CXCursor_CXXMethod"
  "getCursorKind tiny_ast Literal \<noteq> CXCursor_CXXMethod"
  "getCanonicalCursor tiny_ast MethodCall = MethodDecl"
  "getCursorReferenced tiny_ast VarUse = VarDecl"
  "getCursorReferenced tiny_ast Literal = NoCursor"
  "instantiationLocation tiny_ast MethodDecl = (''/src/a.h'', 7, 9)"
  "instantiationLocation tiny_ast VarDecl = (''/src/a.cpp'', 12, 5)"
  by (simp_all add: tiny_ast_def)

lemma at_line_args:
  "''file'' \<in> dom (at_line l)" "''line'' \<in> dom (at_line l)" "''column'' \<in> dom (at_line l)"
  "arg_value (at_line l) ''line'' = l" "arg_value (at_line l) ''column'' = ''1''"
  "lookupLine_file disk (at_line l) = ''/src/a.cpp''"
  by (simp_all add: at_line_def arg_value_def lookupLine_file_def disk_def resolved_def)

lemma a_parsed_unit:
  "isFile disk ''/src/a.cpp''" "tu_value (mTranslationUnits a_parsed) ''/src/a.cpp'' = 1"
  by (simp_all add: disk_def a_parsed_def idle_def tu_value_def)

lemma digit_values:
  "digit_value ''1'' = 1" "digit_value ''2'' = 2" "digit_value ''3'' = 3"
  by (simp_all add: digit_value_def)

theorem lookupline_resolves_cursor_witness:
  "lookupLine disk tiny_ast digit_value (at_line ''1'') a_parsed =
     createResultMap ''Symbol (decl) at /src/a.h, line 7 column 9''
   \<and> lookupLine disk tiny_ast digit_value (at_line ''2'') a_parsed =
     createResultMap ''Symbol (decl) at /src/a.cpp, line 12 column 5''
   \<and> lookupLine disk tiny_ast digit_value (at_line ''3'') a_parsed =
     createResultMap ''No referenced cursor''"
proof -
  note facts = at_line_args a_parsed_unit digit_values tiny_ast_cursors
  have 1: "lookupLine disk tiny_ast digit_value (at_line ''1'') a_parsed =
     createResultMap ''Symbol (decl) at /src/a.h, line 7 column 9''"
    using lookupline_resolves_cursor[of "at_line ''1''" disk digit_value a_parsed MethodCall tiny_ast MethodDecl]
    by (simp add: facts lookupLine_text_examples)
  have 2: "lookupLine disk tiny_ast digit_value (at_line ''2'') a_parsed =
     createResultMap ''Symbol (decl) at /src/a.cpp, line 12 column 5''"
    using lookupline_resolves_cursor[of "at_line ''2''" disk digit_value a_parsed VarUse tiny_ast VarDecl]
    by (simp add: facts lookupLine_text_examples)
  have 3: "lookupLine disk tiny_ast digit_value (at_line ''3'') a_parsed =
     createResultMap ''No referenced cursor''"
    using lookupline_resolves_cursor[of "at_line ''3''" disk digit_value a_parsed Literal tiny_ast NoCursor]
    by (simp add: facts)
  from 1 2 3 show ?thesis by simp
qed

text \<open>
  C5 as stated fails where the resolved cursor is not valid: a unit is cached for
  \<open>/src/a.cpp\<close>, the cursor at line 3 is valid and is not a method, it refers to nothing,
  and the result is "No referenced cursor", not a "Symbol (decl) at" text.
\<close>

theorem lookupline_without_referenced_cursor:
  "lookupLine disk tiny_ast digit_value (at_line ''3'') a_parsed =
     createResultMap ''No referenced cursor''
   \<and> tu_value (mTranslationUnits a_parsed) ''/src/a.cpp'' = 1
   \<and> isValidCursor tiny_ast (cursorAt tiny_ast 1 ''/src/a.cpp'' 3 1)"
  by (simp add: lookupLine_def lookupLine_file_def at_line_def arg_value_def disk_def resolved_def
        digit_value_def a_parsed_def idle_def tu_value_def tiny_ast_def)

subsection \<open>lookup\<close>

lemma stringToType_kinds:
  "stringToType kinds ''class'' = Some (Inr 8)"
  "stringToType kinds ''bogus'' = Some (Inr 0)"
  by (simp_all add: stringToType_def stringToType_from.simps kinds_def word_sle_eq
        strcasecmp_equal_def c_str_def tolower_def)

lemma split_examples:
  "split_bytes (CHR '','') [] = ['''']"
  "split_bytes (CHR '','') '',,'' = ['''', '''', '''']"
  "split_bytes (CHR '','') ''class,,bogus,x'' = [''class'', [], ''bogus'', ''x'']"
  by simp_all

lemma lookup_types_empty:
  "\<forall>e \<in> set es. e = [] \<Longrightarrow> lookup_types N es m = Some (Inr (Inr m))"
  by (induction es) auto

lemma lookup_types_fails:
  assumes "\<forall>x \<in> set pre. x = [] \<or> (\<exists>t. stringToType N x = Some (Inr t) \<and> t \<noteq> 0)"
    and "e \<noteq> []" and "stringToType N e = Some (Inr 0)"
  shows "lookup_types N (pre @ e # post) m = Some (Inr (Inl (''Can't parse type '' @ e)))"
  using assms by (induction pre arbitrary: m) auto

text \<open>
  C8. When every comma-separated entry of \<open>types\<close> is empty (as for an absent argument,
  whose only entry is the empty one), \<open>lookup\<close> calls the symbol lookup once, with the
  mask \<open>All & ~Root\<close>. When an entry that is not empty fails to parse, that is
  \<open>stringToType\<close> returns \<open>Node::None\<close>, the value 0, and the entries before it are empty
  or parse to a kind, the result is "Can't parse type <entry>" and no lookup is made.
\<close>

theorem lookup_kind_mask:
  "((\<forall>e \<in> set (split_bytes (CHR '','') (arg_value args ''types'')). e = []) \<longrightarrow>
      lookup N V args freeArgs =
        Some (Inr (createResultMap
                     (lookup_output V freeArgs
                        (if ''regexp'' \<in> dom args then VisitThread_RegExp V else 0)
                        (and (Node_All N) (not (Node_Root N)))),
                   [(freeArgs, if ''regexp'' \<in> dom args then VisitThread_RegExp V else 0,
                     and (Node_All N) (not (Node_Root N)))])))
   \<and> (split_bytes (CHR '','') (arg_value args ''types'') = pre @ e # post
        \<and> (\<forall>x \<in> set pre. x = [] \<or> (\<exists>t. stringToType N x = Some (Inr t) \<and> t \<noteq> 0))
        \<and> e \<noteq> [] \<and> Node_None N = 0 \<and> stringToType N e = Some (Inr (Node_None N)) \<longrightarrow>
      lookup N V args freeArgs = Some (Inr (createResultMap (''Can't parse type '' @ e), [])))"
  by (auto simp: lookup_def Let_def lookup_types_empty lookup_types_fails)

theorem lookup_kind_mask_witness:
  "lookup kinds visitor Map.empty [''foo''] = Some (Inr (createResultMap [], [([''foo''], 0, 30)]))
   \<and> lookup kinds visitor [''types'' \<mapsto> '',,'', ''regexp'' \<mapsto> []] [''foo''] =
        Some (Inr (createResultMap [], [([''foo''], 1, 30)]))
   \<and> lookup kinds visitor [''types'' \<mapsto> ''class,,bogus,x''] [''foo''] =
        Some (Inr (createResultMap ''Can't parse type bogus'', []))"
proof -
  have v: "lookup_output visitor p f m = []" "VisitThread_RegExp visitor = 1" for p f m
    by (simp_all add: visitor_def)
  have k: "and (Node_All kinds) (not (Node_Root kinds)) = 30" "Node_None kinds = 0"
    by (simp_all add: kinds_def)
  have 1: "lookup kinds visitor Map.empty [''foo''] =
      Some (Inr (createResultMap [], [([''foo''], 0, 30)]))"
    using lookup_kind_mask[where args = Map.empty and N = kinds and V = visitor
            and freeArgs = "[''foo'']"]
    by (simp add: arg_value_def v k)
  have 2: "lookup kinds visitor [''types'' \<mapsto> '',,'', ''regexp'' \<mapsto> []] [''foo''] =
        Some (Inr (createResultMap [], [([''foo''], 1, 30)]))"
    using lookup_kind_mask[where args = "[''types'' \<mapsto> '',,'', ''regexp'' \<mapsto> []]"
            and N = kinds and V = visitor and freeArgs = "[''foo'']"]
    by (simp add: arg_value_def v k)
  have 3: "lookup kinds visitor [''types'' \<mapsto> ''class,,bogus,x''] [''foo''] =
        Some (Inr (createResultMap ''Can't parse type bogus'', []))"
    using lookup_kind_mask[where args = "[''types'' \<mapsto> ''class,,bogus,x'']"
            and pre = "[''class'', []]" and e = "''bogus''" and post = "[''x'']"
            and N = kinds and V = visitor and freeArgs = "[''foo'']"]
    by (simp add: arg_value_def k stringToType_kinds)
  from 1 2 3 show ?thesis by simp
qed

section \<open>Properties of addCursor\<close>

lemma isNull_nullLocation [simp]: "isNull nullLocation"
  by (simp add: isNull_def nullLocation_def)

lemma assign_mCursorsByUsr [simp]: "mCursorsByUsr (assign c f T) = mCursorsByUsr T"
  by (simp add: assign_def)

lemma bind_None_right [simp]: "Option.bind m (\<lambda>x. None) = None"
  by (cases m) simp_all

subsection \<open>Calls that do not return\<close>

text \<open>
  The call for the referenced cursor comes before the record is entered into
  \<open>mCursorsByUsr\<close>. When a cursor with a location is its own referenced cursor and its
  USR is empty or has no entry, that call finds what the call that makes it has found,
  and so does the next: no bound on the depth lets the call return.
\<close>

lemma referenced_by_itself:
  assumes "\<not> isNull (createLocation L x)" and "x \<noteq> nullCursor L"
    and "clang_getCursorReferenced L x = x"
    and "clang_getCursorUSR L x = [] \<or> mCursorsByUsr T (clang_getCursorUSR L x) = None"
  shows "addCursor n L x nullLocation T = None"
  using assms(4)
proof (induction n arbitrary: T)
  case 0
  show ?case by simp
next
  case (Suc n)
  from Suc.prems assms(1-3) show ?case
    by (auto simp add: Let_def addCursor_record_def assign_addCursor_def Suc.IH
        split: option.split)
qed

text \<open>
  A record with an empty USR is never entered into \<open>mCursorsByUsr\<close>. When a cursor with a
  location and an empty USR is its own canonical cursor, the call for the canonical
  cursor makes a record again, and so does the next.
\<close>

lemma canonical_of_itself:
  assumes "\<not> isNull (createLocation L x)" and "clang_getCursorUSR L x = []"
    and "clang_getCanonicalCursor L x = x"
  shows "addCursor n L x nullLocation T = None"
proof (induction n arbitrary: T)
  case 0
  show ?case by simp
next
  case (Suc n)
  from assms show ?case
    by (simp add: Let_def addCursor_record_def assign_addCursor_def Suc.IH)
qed

lemma translation_unit_nodes:
  "nullCursor translation_unit = NoNode"
  "createLocation translation_unit NoNode = nullLocation"
  "createLocation translation_unit Include_h = node_at 1"
  "createLocation translation_unit Define_N = node_at 2"
  "createLocation translation_unit Define_M = node_at 3"
  "createLocation translation_unit Namespace_n = node_at 4"
  "createLocation translation_unit Class_A = node_at 5"
  "createLocation translation_unit Method_f = node_at 8"
  "clang_getCursorUSR translation_unit Include_h = []"
  "clang_getCursorUSR translation_unit Define_N = ''c:a.cpp@20@macro@N''"
  "clang_getCursorUSR translation_unit Define_M = ''c:a.cpp@31@macro@M''"
  "clang_getCursorUSR translation_unit Namespace_n = ''c:@N@n''"
  "clang_getCursorUSR translation_unit Class_A = ''c:@N@n@S@A''"
  "clang_getCursorUSR translation_unit Method_f = ''c:@N@n@S@A@F@f#''"
  "clang_getCursorExtent translation_unit x = None"
  "clang_getCursorReferenced translation_unit Define_N = NoNode"
  "clang_getCursorReferenced translation_unit Define_M = NoNode"
  "clang_getCursorReferenced translation_unit Class_A = Class_A"
  "clang_getCursorReferenced translation_unit Method_f = Method_f"
  "clang_getTemplateCursorKind translation_unit x = None"
  "clang_getCursorLexicalParent translation_unit Define_N = NoNode"
  "clang_getCursorLexicalParent translation_unit Define_M = NoNode"
  "clang_getCursorLexicalParent translation_unit Namespace_n = NoNode"
  "clang_getCursorLexicalParent translation_unit Class_A = Namespace_n"
  "clang_getCursorLexicalParent translation_unit Method_f = Namespace_n"
  "clang_getCursorSemanticParent translation_unit Define_N = NoNode"
  "clang_getCursorSemanticParent translation_unit Define_M = NoNode"
  "clang_getCursorSemanticParent translation_unit Namespace_n = NoNode"
  "clang_getCursorSemanticParent translation_unit Class_A = Namespace_n"
  "clang_getCursorSemanticParent translation_unit Method_f = Class_A"
  "clang_getCanonicalCursor translation_unit x = x"
  "clang_isCursorDefinition translation_unit Define_N = False"
  "clang_isCursorDefinition translation_unit Define_M = False"
  "clang_isCursorDefinition translation_unit Namespace_n = True"
  "clang_isCursorDefinition translation_unit Class_A = True"
  "clang_isCursorDefinition translation_unit Method_f = True"
  "clang_getCursorDefinition translation_unit Define_N = NoNode"
  "clang_getCursorDefinition translation_unit Define_M = NoNode"
  "clang_getSpecializedCursorTemplate translation_unit x = NoNode"
  "clang_getOverriddenCursors translation_unit x = []"
  "operator_new translation_unit {} = 0"
  "operator_new translation_unit {0} = 1"
  "isNull (node_at l) \<longleftrightarrow> l = 0"
  by (simp_all add: translation_unit_def is_declaration_def node_at_def isNull_def)

text \<open>
  C9. The claim says that \<open>addCursor\<close> returns null for every cursor that makes it create
  a record, a cursor with an empty USR among them. A call for a cursor \<open>x\<close> that has a
  location, is its own referenced cursor and has an empty USR or one without an entry
  returns nothing, however deep the recursion may go, and neither does a call for a
  cursor \<open>y\<close> that has a location and an empty USR and is its own canonical cursor.
\<close>

theorem addCursor_does_not_return:
  "(\<not> isNull (createLocation L x) \<and> x \<noteq> nullCursor L \<and> clang_getCursorReferenced L x = x
      \<and> (clang_getCursorUSR L x = [] \<or> mCursorsByUsr T (clang_getCursorUSR L x) = None)
      \<longrightarrow> addCursor n L x nullLocation T = None)
   \<and> (\<not> isNull (createLocation L y) \<and> clang_getCursorUSR L y = []
      \<and> clang_getCanonicalCursor L y = y
      \<longrightarrow> addCursor n L y nullLocation T = None)"
  using referenced_by_itself[of L x T n] canonical_of_itself[of L y n T] by blast

text \<open>
  The class \<open>A\<close> of \<open>translation_unit\<close>, seen for the first time, and the inclusion
  directive are such cursors.
\<close>

theorem addCursor_does_not_return_witness:
  "\<not> isNull (createLocation translation_unit Class_A)
   \<and> Class_A \<noteq> nullCursor translation_unit
   \<and> clang_getCursorReferenced translation_unit Class_A = Class_A
   \<and> mCursorsByUsr fresh (clang_getCursorUSR translation_unit Class_A) = None
   \<and> addCursor (Suc (Suc (Suc 0))) translation_unit Class_A nullLocation fresh = None
   \<and> \<not> isNull (createLocation translation_unit Include_h)
   \<and> clang_getCursorUSR translation_unit Include_h = []
   \<and> clang_getCanonicalCursor translation_unit Include_h = Include_h
   \<and> addCursor (Suc (Suc (Suc 0))) translation_unit Include_h nullLocation fresh = None"
  using addCursor_does_not_return[where L = translation_unit and x = Class_A
          and y = Include_h and T = fresh and n = "Suc (Suc (Suc 0))"]
  by (simp add: translation_unit_nodes fresh_def)

subsection \<open>The record after the call\<close>




end
